theory Spec2Isabelle
  imports Main "HOL-Library.AList" "HOL-Library.Multiset"
begin

section \<open>JSON values and the Python operations on them\<close>

text \<open>
  The columns \<open>stages\<close>, \<open>rules\<close>, \<open>conditions\<close>, \<open>actions\<close>, \<open>stage_data\<close> and
  \<open>history\<close> are JSON columns, and the rule-evaluation context is a request body decoded
  from JSON: their values are Python objects built from \<open>None\<close>, \<open>bool\<close>, \<open>int\<close>,
  \<open>str\<close>, \<open>list\<close> and \<open>dict\<close>. Numbers are restricted to integers here; floating-point
  numbers are outside the embedding. A \<open>dict\<close> is an association list in insertion order;
  a well-formed one has distinct keys.
\<close>

datatype jvalue =
    JNull
  | JBool bool
  | JInt int
  | JStr string
  | JList "jvalue list"
  | JDict "(string \<times> jvalue) list"

type_synonym dict = "(string \<times> jvalue) list"

text \<open>Python's \<open>bool\<close> is a subclass of \<open>int\<close>: \<open>True == 1\<close> and \<open>False == 0\<close>.\<close>

definition bool_int :: "bool \<Rightarrow> int" where
  "bool_int b = (if b then 1 else 0)"

text \<open>
  Python's \<open>==\<close> on these values. Lists are compared element by element; two dicts are
  equal when they have the same number of keys and every key of the first is a key of the
  second with an equal value.
\<close>

fun py_eq :: "jvalue \<Rightarrow> jvalue \<Rightarrow> bool"
  and py_eq_list :: "jvalue list \<Rightarrow> jvalue list \<Rightarrow> bool"
  and py_eq_items :: "(string \<times> jvalue) list \<Rightarrow> (string \<times> jvalue) list \<Rightarrow> bool"
where
  "py_eq JNull JNull = True"
| "py_eq (JBool a) (JBool b) = (a = b)"
| "py_eq (JBool a) (JInt n) = (bool_int a = n)"
| "py_eq (JInt n) (JBool b) = (n = bool_int b)"
| "py_eq (JInt m) (JInt n) = (m = n)"
| "py_eq (JStr s) (JStr t) = (s = t)"
| "py_eq (JList xs) (JList ys) = py_eq_list xs ys"
| "py_eq (JDict a) (JDict b) = (length a = length b \<and> py_eq_items a b)"
| "py_eq _ _ = False"
| "py_eq_list [] [] = True"
| "py_eq_list (x # xs) (y # ys) = (py_eq x y \<and> py_eq_list xs ys)"
| "py_eq_list _ _ = False"
| "py_eq_items [] b = True"
| "py_eq_items ((k, v) # rest) b =
     (case map_of b k of None \<Rightarrow> False | Some w \<Rightarrow> py_eq v w \<and> py_eq_items rest b)"

text \<open>Python's \<open>!=\<close> on these values is the negation of \<open>==\<close>.\<close>

definition py_ne :: "jvalue \<Rightarrow> jvalue \<Rightarrow> bool" where
  "py_ne a b = (\<not> py_eq a b)"

text \<open>Truthiness of an optional dict, an optional list and an optional string:
  \<open>None\<close> and the empty container are falsy.\<close>

fun truthy :: "'a list option \<Rightarrow> bool" where
  "truthy None = False"
| "truthy (Some []) = False"
| "truthy (Some (x # xs)) = True"

text \<open>\<open>x or []\<close> and \<open>x or {}\<close>: the value itself when truthy, a new empty container
  otherwise.\<close>

fun or_empty :: "'a list option \<Rightarrow> 'a list" where
  "or_empty None = []"
| "or_empty (Some xs) = xs"

text \<open>\<open>d.update(other)\<close>: the items of \<open>other\<close> are written into \<open>d\<close> one after the
  other; an existing key keeps its position, a new key goes to the end.\<close>

definition dict_update :: "dict \<Rightarrow> dict \<Rightarrow> dict" where
  "dict_update d other = fold (\<lambda>(k, v). AList.update k v) other d"

text \<open>\<open>xs[a:b]\<close> with Python's treatment of negative and too large bounds.\<close>

definition slice_bound :: "nat \<Rightarrow> int \<Rightarrow> nat" where
  "slice_bound n i = (if i < 0 then nat (max (int n + i) 0) else min (nat i) n)"

definition py_slice :: "'a list \<Rightarrow> int \<Rightarrow> int \<Rightarrow> 'a list" where
  "py_slice xs a b =
     (let lo = slice_bound (length xs) a; hi = slice_bound (length xs) b
      in take (hi - lo) (drop lo xs))"

section \<open>Models and schemas\<close>

datatype WorkflowType = SALES | SUPPORT | DEVELOPMENT | MARKETING | OPERATIONS

fun WorkflowType_value :: "WorkflowType \<Rightarrow> string" where
  "WorkflowType_value SALES = ''sales''"
| "WorkflowType_value SUPPORT = ''support''"
| "WorkflowType_value DEVELOPMENT = ''development''"
| "WorkflowType_value MARKETING = ''marketing''"
| "WorkflowType_value OPERATIONS = ''operations''"

text \<open>Iterating the enumeration visits the members in the order of their declaration.\<close>

definition WorkflowType_members :: "WorkflowType list" where
  "WorkflowType_members = [SALES, SUPPORT, DEVELOPMENT, MARKETING, OPERATIONS]"

text \<open>\<open>WorkflowType(s)\<close> looks the member up by value and raises \<open>ValueError\<close>
  (here \<open>None\<close>) when there is none.\<close>

definition WorkflowType_of_string :: "string \<Rightarrow> WorkflowType option" where
  "WorkflowType_of_string s = find (\<lambda>t. WorkflowType_value t = s) WorkflowType_members"

text \<open>The field \<open>current_stage\<close> of the instance schemas is declared with
  \<open>min_length=1\<close> and \<open>max_length=100\<close>. A \<open>WorkflowInstanceCreate\<close> object exists only
  when its fields have passed these constraints, so its \<open>current_stage\<close> is a string of 1
  to 100 characters.\<close>

typedef stage_name = "{s :: string. 1 \<le> length s \<and> length s \<le> 100}"
  by (rule exI [of _ "''x''"]) simp

setup_lifting type_definition_stage_name

text \<open>Timestamps are points on an integer time line. The fields carry a prefix per
  model, since the models share field names. An entry of a history is a dict.\<close>

record Workflow =
  wf_id :: int
  wf_name :: string
  wf_description :: "string option"
  wf_type :: WorkflowType
  wf_stages :: dict
  wf_rules :: "dict option"
  wf_is_active :: bool
  wf_created_at :: int
  wf_updated_at :: int

record WorkflowCreate =
  wc_name :: string
  wc_description :: "string option"
  wc_type :: WorkflowType
  wc_stages :: dict
  wc_rules :: "dict option"
  wc_is_active :: bool

record WorkflowInstance =
  wi_id :: int
  wi_workflow_id :: int
  wi_project_id :: int
  wi_current_stage :: string
  wi_stage_data :: "dict option"
  wi_history :: "dict list option"
  wi_is_completed :: bool
  wi_created_at :: int
  wi_updated_at :: int

record WorkflowInstanceCreate =
  ic_workflow_id :: int
  ic_project_id :: int
  ic_current_stage :: stage_name
  ic_stage_data :: "dict option"
  ic_history :: "dict list option"
  ic_is_completed :: bool

record WorkflowStageTransition =
  st_from_stage :: string
  st_to_stage :: string
  st_transition_data :: "dict option"
  st_notes :: "string option"
  st_triggered_by :: "int option"

record BusinessRule =
  br_id :: int
  br_name :: string
  br_description :: "string option"
  br_rule_type :: string
  br_conditions :: dict
  br_actions :: dict
  br_is_active :: bool
  br_created_at :: int
  br_updated_at :: int

text \<open>Of a project only its primary key matters to the workflow engine.\<close>

record Project =
  pr_id :: int

text \<open>The session's view of the database: one list of rows per table, in storage order.\<close>

record database =
  workflows :: "Workflow list"
  workflow_instances :: "WorkflowInstance list"
  business_rules :: "BusinessRule list"
  projects :: "Project list"

datatype error =
    HTTPException int string
  | ValueError string
  | ZeroDivisionError
  | ValidationError

section \<open>Query primitives\<close>

text \<open>\<open>order_by(desc(created_at))\<close>: the rows sorted by falling key. Rows with equal keys
  stay in storage order, which fixes the one order among those the engine may return.\<close>

definition order_by_desc :: "('a \<Rightarrow> int) \<Rightarrow> 'a list \<Rightarrow> 'a list" where
  "order_by_desc key rows = sort_key (\<lambda>r. - key r) rows"

text \<open>The primary key of a new row is generated by the engine and differs from the key
  of every row of the table: here the successor of the largest key in use.\<close>

definition next_id :: "int list \<Rightarrow> int" where
  "next_id ids = fold max ids 0 + 1"

section \<open>WorkflowRepository\<close>

definition WorkflowRepository_get :: "database \<Rightarrow> int \<Rightarrow> Workflow option" where
  "WorkflowRepository_get db ident = find (\<lambda>w. wf_id w = ident) (workflows db)"

definition get_by_type :: "database \<Rightarrow> WorkflowType \<Rightarrow> Workflow list" where
  "get_by_type db workflow_type =
     order_by_desc wf_created_at
       (filter (\<lambda>w. wf_type w = workflow_type \<and> wf_is_active w = True) (workflows db))"

definition get_active_workflows :: "database \<Rightarrow> Workflow list" where
  "get_active_workflows db =
     order_by_desc wf_created_at (filter (\<lambda>w. wf_is_active w = True) (workflows db))"

text \<open>\<open>create_workflow\<close>: the row is built from the fields of the schema object, added
  and committed; the refresh reads the generated key and the two timestamps, both set by
  the server default to the time \<open>db_now\<close> of the insertion.\<close>

definition create_workflow :: "database \<Rightarrow> WorkflowCreate \<Rightarrow> int \<Rightarrow> database \<times> Workflow" where
  "create_workflow db workflow_data db_now =
     (let db_workflow =
            \<lparr> wf_id = next_id (map wf_id (workflows db)),
              wf_name = wc_name workflow_data,
              wf_description = wc_description workflow_data,
              wf_type = wc_type workflow_data,
              wf_stages = wc_stages workflow_data,
              wf_rules = wc_rules workflow_data,
              wf_is_active = wc_is_active workflow_data,
              wf_created_at = db_now,
              wf_updated_at = db_now \<rparr>
      in (db\<lparr>workflows := workflows db @ [db_workflow]\<rparr>, db_workflow))"

record WorkflowStats =
  rs_total_workflows :: int
  rs_active_workflows :: int
  rs_workflows_by_type :: "(string \<times> int) list"
  rs_recent_workflows :: "Workflow list"

text \<open>\<open>get_workflow_statistics\<close>: the loop over the enumeration writes one count per
  member into the dict \<open>workflows_by_type\<close>.\<close>

definition count_rows :: "('a \<Rightarrow> bool) \<Rightarrow> 'a list \<Rightarrow> int" where
  "count_rows p rows = int (length (filter p rows))"

definition get_workflow_statistics :: "database \<Rightarrow> WorkflowStats" where
  "get_workflow_statistics db =
     (let total_workflows = int (length (workflows db));
          active_workflows = count_rows (\<lambda>w. wf_is_active w = True) (workflows db);
          workflows_by_type =
            fold (\<lambda>workflow_type acc.
                    AList.update (WorkflowType_value workflow_type)
                      (count_rows (\<lambda>w. wf_type w = workflow_type) (workflows db)) acc)
                 WorkflowType_members [];
          recent_workflows =
            take 5 (order_by_desc wf_created_at
                      (filter (\<lambda>w. wf_is_active w = True) (workflows db)))
      in \<lparr> rs_total_workflows = total_workflows,
           rs_active_workflows = active_workflows,
           rs_workflows_by_type = workflows_by_type,
           rs_recent_workflows = recent_workflows \<rparr>)"

section \<open>ProjectRepository\<close>

definition ProjectRepository_get :: "database \<Rightarrow> int \<Rightarrow> Project option" where
  "ProjectRepository_get db ident = find (\<lambda>p. pr_id p = ident) (projects db)"

section \<open>WorkflowInstanceRepository\<close>

text \<open>The eager loading of the \<open>workflow\<close> and \<open>project\<close> relations attaches related rows
  to the returned object and does not change which instance row is returned; the
  returned value here is the instance row.\<close>

definition WorkflowInstanceRepository_get :: "database \<Rightarrow> int \<Rightarrow> WorkflowInstance option" where
  "WorkflowInstanceRepository_get db ident =
     find (\<lambda>i. wi_id i = ident) (workflow_instances db)"

definition create_workflow_instance ::
  "database \<Rightarrow> WorkflowInstanceCreate \<Rightarrow> int \<Rightarrow> database \<times> WorkflowInstance option" where
  "create_workflow_instance db instance_data db_now =
     (let db_instance =
            \<lparr> wi_id = next_id (map wi_id (workflow_instances db)),
              wi_workflow_id = ic_workflow_id instance_data,
              wi_project_id = ic_project_id instance_data,
              wi_current_stage = Rep_stage_name (ic_current_stage instance_data),
              wi_stage_data = ic_stage_data instance_data,
              wi_history = ic_history instance_data,
              wi_is_completed = ic_is_completed instance_data,
              wi_created_at = db_now,
              wi_updated_at = db_now \<rparr>;
          db' = db\<lparr>workflow_instances := workflow_instances db @ [db_instance]\<rparr>
      in (db', WorkflowInstanceRepository_get db' (wi_id db_instance)))"

text \<open>
  Object identity in the session. The attribute of a loaded row holds a Python object, and
  the unit of work learns of a change only through an assignment to the attribute. The
  JSON columns are declared as plain \<open>Column(JSON)\<close>, without mutation tracking: at the
  flush the assigned value is compared with the value remembered as loaded, and the column
  goes into the \<open>UPDATE\<close> only if the two differ. When the assigned object is the loaded
  object itself, changed in place, the remembered value is that same object, the
  comparison finds no change, and the column is left out.
\<close>

datatype 'a obj = LoadedObject 'a | NewObject 'a

text \<open>\<open>x or []\<close> and \<open>x or {}\<close> as objects: \<open>x\<close> itself, the loaded object, when it is
  truthy; a new empty container otherwise.\<close>

definition or_new :: "'a list option \<Rightarrow> 'a list obj" where
  "or_new x = (if truthy x then LoadedObject (or_empty x) else NewObject [])"

text \<open>A method that changes an object in place (\<open>append\<close>, \<open>update\<close>) keeps its identity.\<close>

fun in_place :: "('a \<Rightarrow> 'a) \<Rightarrow> 'a obj \<Rightarrow> 'a obj" where
  "in_place f (LoadedObject v) = LoadedObject (f v)"
| "in_place f (NewObject v) = NewObject (f v)"

text \<open>The value the flush writes for a JSON attribute that was assigned the object \<open>x\<close>,
  \<open>old\<close> being the stored value; \<open>None\<close> when the column is left out of the \<open>UPDATE\<close>.\<close>

fun json_change :: "'a option \<Rightarrow> 'a obj \<Rightarrow> 'a option" where
  "json_change old (LoadedObject v) = None"
| "json_change old (NewObject v) = (if old = Some v then None else Some v)"

text \<open>The same for a string attribute, compared by value.\<close>

definition scalar_change :: "string \<Rightarrow> string \<Rightarrow> string option" where
  "scalar_change old v = (if old = v then None else Some v)"

text \<open>The flush of the instance at the commit. With no net change no statement is issued.
  Otherwise the \<open>UPDATE\<close> sets the changed columns of the rows with the primary key of the
  instance, and the engine sets \<open>updated_at\<close> to the time \<open>db_now\<close> of the update.\<close>

definition flush_instance ::
  "database \<Rightarrow> WorkflowInstance \<Rightarrow> dict list option \<Rightarrow> dict option \<Rightarrow> string option \<Rightarrow> int
     \<Rightarrow> database" where
  "flush_instance db instance history_change stage_data_change current_stage_change db_now =
     (if history_change = None \<and> stage_data_change = None \<and> current_stage_change = None
      then db
      else db\<lparr>workflow_instances :=
             map (\<lambda>row. if wi_id row = wi_id instance
                         then row\<lparr> wi_history :=
                                     (case history_change of
                                        None \<Rightarrow> wi_history row | Some h \<Rightarrow> Some h),
                                   wi_stage_data :=
                                     (case stage_data_change of
                                        None \<Rightarrow> wi_stage_data row | Some d \<Rightarrow> Some d),
                                   wi_current_stage :=
                                     (case current_stage_change of
                                        None \<Rightarrow> wi_current_stage row | Some c \<Rightarrow> c),
                                   wi_updated_at := db_now \<rparr>
                         else row)
                 (workflow_instances db)\<rparr>)"

text \<open>The transition record, a dict with the five keys in the order of the source.\<close>

definition transition_record ::
  "string \<Rightarrow> string \<Rightarrow> string \<Rightarrow> int option \<Rightarrow> dict option \<Rightarrow> dict" where
  "transition_record from_stage new_stage utcnow triggered_by transition_data =
     [(''from_stage'', JStr from_stage),
      (''to_stage'', JStr new_stage),
      (''timestamp'', JStr utcnow),
      (''triggered_by'', (case triggered_by of None \<Rightarrow> JNull | Some u \<Rightarrow> JInt u)),
      (''data'', JDict (if truthy transition_data then or_empty transition_data else []))]"

text \<open>\<open>transition_stage\<close>. \<open>utcnow\<close> is the ISO-8601 text of the clock read for the
  record, \<open>db_now\<close> the time of the commit. \<open>history\<close> and \<open>current_data\<close> are the objects
  the source appends to and updates in place before it assigns them back. The commit
  flushes the net changes; the refresh reads the row back, and the final \<open>get\<close> returns it
  as stored.\<close>

definition transition_stage ::
  "database \<Rightarrow> int \<Rightarrow> string \<Rightarrow> dict option \<Rightarrow> int option \<Rightarrow> string \<Rightarrow> int
     \<Rightarrow> database \<times> (error + WorkflowInstance option)" where
  "transition_stage db instance_id new_stage transition_data triggered_by utcnow db_now =
     (case WorkflowInstanceRepository_get db instance_id of
        None \<Rightarrow> (db, Inl (ValueError ''Workflow instance not found''))
      | Some instance \<Rightarrow>
          (let record = transition_record (wi_current_stage instance) new_stage utcnow
                          triggered_by transition_data;
               history = in_place (\<lambda>h. h @ [record]) (or_new (wi_history instance));
               history_change = json_change (wi_history instance) history;
               stage_data_change =
                 (if truthy transition_data
                  then (let current_data =
                              in_place (\<lambda>d. dict_update d (or_empty transition_data))
                                (or_new (wi_stage_data instance))
                        in json_change (wi_stage_data instance) current_data)
                  else None);
               current_stage_change = scalar_change (wi_current_stage instance) new_stage;
               db' = flush_instance db instance history_change stage_data_change
                       current_stage_change db_now
           in (db', Inr (WorkflowInstanceRepository_get db' (wi_id instance)))))"

text \<open>The row a transition leaves behind for an instance \<open>inst\<close>, written as one record
  update; it serves to state the effect of \<open>transition_stage\<close> in the lemmas below.\<close>

definition transitioned ::
  "WorkflowInstance \<Rightarrow> string \<Rightarrow> dict option \<Rightarrow> int option \<Rightarrow> string \<Rightarrow> int
     \<Rightarrow> WorkflowInstance" where
  "transitioned inst new_stage transition_data triggered_by utcnow db_now =
     inst\<lparr> wi_history :=
             (if truthy (wi_history inst) then wi_history inst
              else Some [transition_record (wi_current_stage inst) new_stage utcnow
                           triggered_by transition_data]),
           wi_stage_data :=
             (if truthy transition_data \<and> \<not> truthy (wi_stage_data inst)
              then Some (dict_update [] (or_empty transition_data))
              else wi_stage_data inst),
           wi_current_stage := new_stage,
           wi_updated_at :=
             (if truthy (wi_history inst) \<and> wi_current_stage inst = new_stage
                 \<and> (if truthy transition_data then truthy (wi_stage_data inst) else True)
              then wi_updated_at inst else db_now) \<rparr>"

text \<open>A sequence of transition calls on one instance, each call on the database the
  previous one left behind. A call is given by its arguments and the two clock readings.\<close>

record TransitionCall =
  tc_new_stage :: string
  tc_transition_data :: "dict option"
  tc_triggered_by :: "int option"
  tc_utcnow :: string
  tc_db_now :: int

definition transition_call :: "int \<Rightarrow> TransitionCall \<Rightarrow> database \<Rightarrow> database" where
  "transition_call instance_id c db =
     fst (transition_stage db instance_id (tc_new_stage c) (tc_transition_data c)
            (tc_triggered_by c) (tc_utcnow c) (tc_db_now c))"

definition transition_sequence :: "database \<Rightarrow> int \<Rightarrow> TransitionCall list \<Rightarrow> database" where
  "transition_sequence db instance_id calls = fold (transition_call instance_id) calls db"

section \<open>BusinessRuleRepository\<close>

definition get_active_rules :: "database \<Rightarrow> BusinessRule list" where
  "get_active_rules db =
     order_by_desc br_created_at (filter (\<lambda>r. br_is_active r = True) (business_rules db))"

text \<open>\<open>_evaluate_conditions\<close>: the loop over the items of \<open>conditions\<close> returns \<open>False\<close>
  at the first key that is missing from the context or whose value differs.\<close>

fun evaluate_conditions :: "dict \<Rightarrow> dict \<Rightarrow> bool" where
  "evaluate_conditions [] context = True"
| "evaluate_conditions ((key, expected_value) # conditions) context =
     (case map_of context key of
        None \<Rightarrow> False
      | Some v \<Rightarrow> if py_ne v expected_value then False
                  else evaluate_conditions conditions context)"

record TriggeredRule =
  rule_id :: int
  rule_name :: string
  rule_type :: string
  actions :: dict

text \<open>\<open>evaluate_rules\<close>: the loop over the active rules appends one entry per rule whose
  conditions are met.\<close>

fun evaluate_rules_loop ::
  "BusinessRule list \<Rightarrow> dict \<Rightarrow> TriggeredRule list \<Rightarrow> TriggeredRule list" where
  "evaluate_rules_loop [] context triggered_rules = triggered_rules"
| "evaluate_rules_loop (rule # active_rules) context triggered_rules =
     evaluate_rules_loop active_rules context
       (if evaluate_conditions (br_conditions rule) context
        then triggered_rules @
               [\<lparr> rule_id = br_id rule, rule_name = br_name rule,
                  rule_type = br_rule_type rule, actions = br_actions rule \<rparr>]
        else triggered_rules)"

definition evaluate_rules :: "database \<Rightarrow> dict \<Rightarrow> TriggeredRule list" where
  "evaluate_rules db context = evaluate_rules_loop (get_active_rules db) context []"

section \<open>API routes\<close>

record WorkflowList =
  wl_items :: "Workflow list"
  wl_total :: int
  wl_page :: int
  wl_size :: int
  wl_pages :: int

text \<open>\<open>GET /workflows\<close>. The response schema copies the fields of each row; the rows
  stand for the response items (the name and the stages of a stored workflow have passed
  the create and update schemas, which bound them as the response schema does). \<open>//\<close> is floor division and raises on a zero divisor.\<close>

definition get_workflows ::
  "database \<Rightarrow> int \<Rightarrow> int \<Rightarrow> string option \<Rightarrow> error + WorkflowList" where
  "get_workflows db skip limit workflow_type =
     (case (if truthy workflow_type
            then (case WorkflowType_of_string (or_empty workflow_type) of
                    None \<Rightarrow> Inl (HTTPException 400 ''Invalid workflow type'')
                  | Some workflow_type_enum \<Rightarrow> Inr (get_by_type db workflow_type_enum))
            else Inr (get_active_workflows db)) of
        Inl e \<Rightarrow> Inl e
      | Inr found \<Rightarrow>
          (let total = int (length found);
               paginated_workflows = py_slice found skip (skip + limit)
           in if limit = 0 then Inl ZeroDivisionError
              else Inr \<lparr> wl_items = paginated_workflows,
                         wl_total = total,
                         wl_page = skip div limit + 1,
                         wl_size = limit,
                         wl_pages = (total + limit - 1) div limit \<rparr>))"

record WorkflowStatistics =
  total_workflows :: int
  active_workflows :: int
  completed_workflows :: int
  workflows_by_type :: "(string \<times> int) list"
  workflows_by_stage :: "(string \<times> int) list"
  recent_workflows :: "Workflow list"

text \<open>\<open>GET /workflows/statistics/overview\<close>.\<close>

definition get_workflow_statistics_route :: "database \<Rightarrow> WorkflowStatistics" where
  "get_workflow_statistics_route db =
     (let stats = get_workflow_statistics db
      in \<lparr> total_workflows = rs_total_workflows stats,
           active_workflows = rs_active_workflows stats,
           completed_workflows = 0,
           workflows_by_type = rs_workflows_by_type stats,
           workflows_by_stage = [],
           recent_workflows = rs_recent_workflows stats \<rparr>)"

text \<open>\<open>WorkflowInstanceResponse.from_orm\<close>. Building the response from \<open>None\<close> fails, and
  so does a \<open>current_stage\<close> that is empty or longer than 100 characters: the response
  schema inherits the field with \<open>min_length=1\<close> and \<open>max_length=100\<close>. The other fields
  of the row have the types the schema asks for; the related workflow and project rows
  are taken to satisfy their own response schemas.\<close>

definition from_orm :: "WorkflowInstance option \<Rightarrow> error + WorkflowInstance" where
  "from_orm row =
     (case row of
        None \<Rightarrow> Inl ValidationError
      | Some r \<Rightarrow>
          if 1 \<le> length (wi_current_stage r) \<and> length (wi_current_stage r) \<le> 100
          then Inr r else Inl ValidationError)"

text \<open>\<open>POST /workflows/instances\<close>. Every route returns the database it leaves behind
  together with its result.\<close>

definition create_workflow_instance_route ::
  "database \<Rightarrow> WorkflowInstanceCreate \<Rightarrow> int \<Rightarrow> database \<times> (error + WorkflowInstance)" where
  "create_workflow_instance_route db instance_data db_now =
     (case WorkflowRepository_get db (ic_workflow_id instance_data) of
        None \<Rightarrow> (db, Inl (HTTPException 404 ''Workflow not found''))
      | Some workflow \<Rightarrow>
          (case ProjectRepository_get db (ic_project_id instance_data) of
             None \<Rightarrow> (db, Inl (HTTPException 404 ''Project not found''))
           | Some project \<Rightarrow>
               (let (db', instance) = create_workflow_instance db instance_data db_now
                in (db', from_orm instance))))"

text \<open>\<open>POST /workflows/instances/{instance_id}/transition\<close>. Of the request body the
  route reads \<open>to_stage\<close> and \<open>transition_data\<close>; the actor is the authenticated user.\<close>

definition transition_workflow_stage ::
  "database \<Rightarrow> int \<Rightarrow> WorkflowStageTransition \<Rightarrow> int \<Rightarrow> string \<Rightarrow> int
     \<Rightarrow> database \<times> (error + WorkflowInstance)" where
  "transition_workflow_stage db instance_id transition_data current_user_id utcnow db_now =
     (case WorkflowInstanceRepository_get db instance_id of
        None \<Rightarrow> (db, Inl (HTTPException 404 ''Workflow instance not found''))
      | Some instance \<Rightarrow>
          (case transition_stage db instance_id (st_to_stage transition_data)
                  (st_transition_data transition_data) (Some current_user_id) utcnow db_now of
             (db', Inl e) \<Rightarrow> (db', Inl e)
           | (db', Inr updated_instance) \<Rightarrow> (db', from_orm updated_instance)))"

section \<open>Example data\<close>

definition example_rules :: "BusinessRule list" where
  "example_rules =
     [\<lparr> br_id = 1, br_name = ''escalate'', br_description = None,
        br_rule_type = ''automation'', br_conditions = [(''status'', JStr ''open'')],
        br_actions = [(''notify'', JStr ''owner'')], br_is_active = True,
        br_created_at = 10, br_updated_at = 10 \<rparr>,
      \<lparr> br_id = 2, br_name = ''retired'', br_description = None,
        br_rule_type = ''validation'', br_conditions = [],
        br_actions = [], br_is_active = False,
        br_created_at = 20, br_updated_at = 25 \<rparr>,
      \<lparr> br_id = 3, br_name = ''audit'', br_description = None,
        br_rule_type = ''notification'', br_conditions = [],
        br_actions = [(''log'', JBool True)], br_is_active = True,
        br_created_at = 30, br_updated_at = 30 \<rparr>]"

definition example_workflows :: "Workflow list" where
  "example_workflows =
     [\<lparr> wf_id = 1, wf_name = ''Sales Pipeline'', wf_description = None, wf_type = SALES,
        wf_stages = [(''lead'', JDict []), (''closed_won'', JDict [])], wf_rules = None,
        wf_is_active = True, wf_created_at = 5, wf_updated_at = 5 \<rparr>,
      \<lparr> wf_id = 2, wf_name = ''Old Sales'', wf_description = None, wf_type = SALES,
        wf_stages = [(''lead'', JDict [])], wf_rules = None,
        wf_is_active = False, wf_created_at = 7, wf_updated_at = 8 \<rparr>,
      \<lparr> wf_id = 3, wf_name = ''Helpdesk'', wf_description = Some ''tickets'', wf_type = SUPPORT,
        wf_stages = [(''new'', JDict [])], wf_rules = Some [],
        wf_is_active = True, wf_created_at = 9, wf_updated_at = 9 \<rparr>]"

definition example_instance :: WorkflowInstance where
  "example_instance =
     \<lparr> wi_id = 1, wi_workflow_id = 1, wi_project_id = 1, wi_current_stage = ''lead'',
       wi_stage_data = Some [(''b'', JInt 2)], wi_history = None, wi_is_completed = False,
       wi_created_at = 12, wi_updated_at = 12 \<rparr>"

definition example_db :: database where
  "example_db =
     \<lparr> workflows = example_workflows,
       workflow_instances = [example_instance],
       business_rules = example_rules,
       projects = [\<lparr> pr_id = 1 \<rparr>] \<rparr>"

definition example_calls :: "TransitionCall list" where
  "example_calls =
     [\<lparr> tc_new_stage = ''qualification'', tc_transition_data = Some [(''a'', JInt 1)],
        tc_triggered_by = Some 7, tc_utcnow = ''2024-01-01T10:00:00'', tc_db_now = 40 \<rparr>,
      \<lparr> tc_new_stage = ''closed_won'', tc_transition_data = Some [(''a'', JInt 3)],
        tc_triggered_by = None, tc_utcnow = ''2024-01-02T10:00:00'', tc_db_now = 50 \<rparr>]"

definition example_workflow_data :: WorkflowCreate where
  "example_workflow_data =
     \<lparr> wc_name = ''Onboarding'', wc_description = Some ''new customers'', wc_type = OPERATIONS,
       wc_stages = [(''start'', JDict [])], wc_rules = None, wc_is_active = True \<rparr>"

lift_definition lead_stage :: stage_name is "''lead''"
  by simp

definition example_instance_data :: "int \<Rightarrow> int \<Rightarrow> WorkflowInstanceCreate" where
  "example_instance_data workflow_id project_id =
     \<lparr> ic_workflow_id = workflow_id, ic_project_id = project_id, ic_current_stage = lead_stage,
       ic_stage_data = None, ic_history = None, ic_is_completed = False \<rparr>"

section \<open>Properties of the query primitives\<close>

lemma or_truthy [simp]: "(if truthy x then or_empty x else []) = or_empty x"
  by (cases x rule: truthy.cases) simp_all

lemma mset_order_by_desc: "mset (order_by_desc key rows) = mset rows"
  by (simp add: order_by_desc_def)

lemma set_order_by_desc: "set (order_by_desc key rows) = set rows"
  by (simp add: order_by_desc_def)

lemma length_order_by_desc: "length (order_by_desc key rows) = length rows"
  by (simp add: order_by_desc_def)

lemma sorted_order_by_desc:
  "sorted_wrt (\<lambda>a b. key b \<le> key a) (order_by_desc key rows)"
proof -
  have "sorted (map (\<lambda>r. - key r) (sort_key (\<lambda>r. - key r) rows))"
    by (rule sorted_sort_key)
  then show ?thesis
    by (simp add: order_by_desc_def sorted_map)
qed

lemma sorted_wrt_filter_desc:
  "sorted_wrt (\<lambda>a b. key b \<le> (key a :: int)) rows
     \<Longrightarrow> sorted_wrt (\<lambda>a b. key b \<le> key a) (filter p rows)"
  by (induction rows) auto

section \<open>Rule matching\<close>

lemma evaluate_conditions_iff:
  "evaluate_conditions conditions context \<longleftrightarrow>
     (\<forall>(key, expected_value) \<in> set conditions.
        \<exists>v. map_of context key = Some v \<and> py_eq v expected_value)"
  by (induction conditions) (auto simp: py_ne_def split: option.splits if_splits)

text \<open>
  Claim C1, as stated: the match predicate is true if and only if every key of the
  conditions is present in the context and maps to an exactly equal value (same type and
  value). This fails where Python's comparison identifies values of different types: the
  condition \<open>{"flag": 1}\<close> is met by the context \<open>{"flag": true}\<close>, although the context
  does not map \<open>flag\<close> to the integer \<open>1\<close>.
\<close>

theorem C1_bool_matches_int_counterexample:
  "\<not> (evaluate_conditions [(''flag'', JInt 1)] [(''flag'', JBool True)] \<longleftrightarrow>
       (\<forall>(key, expected_value) \<in> set [(''flag'', JInt 1)].
          map_of [(''flag'', JBool True)] key = Some expected_value))"
  by (simp add: py_ne_def bool_int_def)

text \<open>
  Claim C1, amended: rule-condition matching is an AND of comparisons by Python's \<open>==\<close>.
  For every conditions mapping and every context, the match predicate is true if and only
  if every key of the conditions is present in the context and maps to a value that
  \<open>==\<close> finds equal to the expected one (a boolean equals the integer 0 or 1, and lists
  and mappings are compared inside by \<open>==\<close> as well). In particular an empty conditions
  mapping matches every context, the empty one included, and any missing key or value
  unequal under \<open>==\<close> makes the rule not match.
\<close>

theorem C1_evaluate_conditions_and_of_py_eq:
  "(evaluate_conditions conditions context \<longleftrightarrow>
      (\<forall>(key, expected_value) \<in> set conditions.
         \<exists>v. map_of context key = Some v \<and> py_eq v expected_value))
   \<and> evaluate_conditions [] context
   \<and> evaluate_conditions [] []"
  using evaluate_conditions_iff [of conditions "context"] by simp

theorem C1_evaluate_conditions_witness:
  "evaluate_conditions
     [(''status'', JStr ''open''), (''priority'', JStr ''high'')]
     [(''status'', JStr ''open''), (''priority'', JStr ''high''), (''extra'', JStr ''x'')]
   \<and> (''status'', JStr ''open'') \<in> set [(''status'', JStr ''open''), (''priority'', JStr ''high'')]
   \<and> map_of [(''status'', JStr ''open''), (''priority'', JStr ''high''), (''extra'', JStr ''x'')]
        ''status'' = Some (JStr ''open'')
   \<and> py_eq (JStr ''open'') (JStr ''open'')"
  using C1_evaluate_conditions_and_of_py_eq
          [of "[(''status'', JStr ''open''), (''priority'', JStr ''high'')]"
              "[(''status'', JStr ''open''), (''priority'', JStr ''high''), (''extra'', JStr ''x'')]"]
  by (simp add: py_ne_def)

section \<open>Rule evaluation\<close>

lemma evaluate_rules_loop_eq:
  "evaluate_rules_loop rules context acc =
     acc @ map (\<lambda>r. \<lparr> rule_id = br_id r, rule_name = br_name r,
                        rule_type = br_rule_type r, actions = br_actions r \<rparr>)
             (filter (\<lambda>r. evaluate_conditions (br_conditions r) context) rules)"
  by (induction rules arbitrary: acc) simp_all

lemma evaluate_rules_eq:
  "evaluate_rules db context =
     map (\<lambda>r. \<lparr> rule_id = br_id r, rule_name = br_name r,
                 rule_type = br_rule_type r, actions = br_actions r \<rparr>)
       (filter (\<lambda>r. evaluate_conditions (br_conditions r) context) (get_active_rules db))"
  by (simp add: evaluate_rules_def evaluate_rules_loop_eq)

text \<open>
  Claim C3: \<open>evaluate_rules\<close> returns one entry for exactly the rules that are active and
  whose conditions match the context (each such rule once), in descending creation-time
  order; the entry of a rule carries the rule's id as \<open>rule_id\<close>, its name as \<open>rule_name\<close>,
  its type as \<open>rule_type\<close> and its actions as \<open>actions\<close>. With primary keys distinct, the
  key of an inactive rule never occurs in the output, whatever its conditions.
\<close>

theorem C3_evaluate_rules_active_matching_desc:
  "(\<exists>rs. evaluate_rules db context =
            map (\<lambda>r. \<lparr> rule_id = br_id r, rule_name = br_name r,
                        rule_type = br_rule_type r, actions = br_actions r \<rparr>) rs
      \<and> mset rs =
          mset (filter (\<lambda>r. br_is_active r \<and> evaluate_conditions (br_conditions r) context)
                  (business_rules db))
      \<and> sorted_wrt (\<lambda>a b. br_created_at b \<le> br_created_at a) rs)
   \<and> (distinct (map br_id (business_rules db)) \<longrightarrow>
        (\<forall>r \<in> set (business_rules db).
           \<not> br_is_active r \<longrightarrow> br_id r \<notin> rule_id ` set (evaluate_rules db context)))"
proof (intro conjI impI ballI)
  let ?m = "\<lambda>r. evaluate_conditions (br_conditions r) context"
  let ?e = "\<lambda>r. \<lparr> rule_id = br_id r, rule_name = br_name r,
                   rule_type = br_rule_type r, actions = br_actions r \<rparr>"
  let ?rs = "filter ?m (get_active_rules db)"
  have a: "evaluate_rules db context = map ?e ?rs"
    by (rule evaluate_rules_eq)
  have b: "mset ?rs = mset (filter (\<lambda>r. br_is_active r \<and> ?m r) (business_rules db))"
    by (simp add: get_active_rules_def mset_order_by_desc filter_filter_mset)
  have c: "sorted_wrt (\<lambda>a b. br_created_at b \<le> br_created_at a) ?rs"
    unfolding get_active_rules_def
    by (rule sorted_wrt_filter_desc) (rule sorted_order_by_desc)
  from a b c show "\<exists>rs. evaluate_rules db context = map ?e rs
      \<and> mset rs = mset (filter (\<lambda>r. br_is_active r \<and> ?m r) (business_rules db))
      \<and> sorted_wrt (\<lambda>a b. br_created_at b \<le> br_created_at a) rs"
    by blast
next
  fix r
  assume d: "distinct (map br_id (business_rules db))"
    and r: "r \<in> set (business_rules db)" and na: "\<not> br_is_active r"
  show "br_id r \<notin> rule_id ` set (evaluate_rules db context)"
  proof
    assume "br_id r \<in> rule_id ` set (evaluate_rules db context)"
    then obtain q where q: "q \<in> set (get_active_rules db)" and id: "br_id q = br_id r"
      by (auto simp: evaluate_rules_eq)
    from q have qa: "br_is_active q" and qs: "q \<in> set (business_rules db)"
      by (simp_all add: get_active_rules_def set_order_by_desc)
    from d qs r id have "q = r"
      by (meson distinct_map inj_onD)
    with qa na show False by simp
  qed
qed

theorem C3_evaluate_rules_witness:
  "distinct (map br_id (business_rules example_db))
   \<and> example_rules ! 1 \<in> set (business_rules example_db)
   \<and> \<not> br_is_active (example_rules ! 1)
   \<and> evaluate_conditions (br_conditions (example_rules ! 1)) [(''status'', JStr ''open'')]
   \<and> br_id (example_rules ! 1)
        \<notin> rule_id ` set (evaluate_rules example_db [(''status'', JStr ''open'')])
   \<and> evaluate_rules example_db [(''status'', JStr ''open'')] =
        [\<lparr> rule_id = 3, rule_name = ''audit'', rule_type = ''notification'',
           actions = [(''log'', JBool True)] \<rparr>,
         \<lparr> rule_id = 1, rule_name = ''escalate'', rule_type = ''automation'',
           actions = [(''notify'', JStr ''owner'')] \<rparr>]"
  using C3_evaluate_rules_active_matching_desc [of example_db "[(''status'', JStr ''open'')]"]
  by (simp add: example_db_def example_rules_def evaluate_rules_def get_active_rules_def
        order_by_desc_def py_ne_def)

section \<open>Stage transitions\<close>

lemma or_empty_falsy: "\<not> truthy x \<Longrightarrow> or_empty x = []"
  by (cases x rule: truthy.cases) simp_all

lemma truthy_nonempty: "truthy (Some s) \<longleftrightarrow> s \<noteq> []"
  by (cases s) simp_all

lemma update_nonempty: "AList.update k v d \<noteq> []"
  by (cases d) auto

lemma fold_update_nonempty:
  "d \<noteq> [] \<Longrightarrow> fold (\<lambda>(k, v). AList.update k v) other d \<noteq> []"
  by (induction other arbitrary: d) (simp_all add: update_nonempty split: prod.splits)

lemma dict_update_nonempty: "other \<noteq> [] \<Longrightarrow> dict_update d other \<noteq> []"
proof (cases other)
  case Nil
  assume "other \<noteq> []"
  with Nil show ?thesis by simp
next
  case (Cons kv rest)
  obtain k v where kv: "kv = (k, v)" by (cases kv)
  have "dict_update d other = fold (\<lambda>(k, v). AList.update k v) rest (AList.update k v d)"
    by (simp add: dict_update_def Cons kv)
  then show ?thesis
    by (simp add: fold_update_nonempty update_nonempty)
qed

lemma json_change_history:
  "json_change h (in_place (\<lambda>h. h @ [record]) (or_new h)) =
     (if truthy h then None else Some [record])"
  by (cases h rule: truthy.cases) (simp_all add: or_new_def)


lemma json_change_stage_data:
  assumes "truthy transition_data"
  shows "json_change sd (in_place (\<lambda>d. dict_update d (or_empty transition_data)) (or_new sd)) =
     (if truthy sd then None else Some (dict_update [] (or_empty transition_data)))"
proof -
  from assms have n: "or_empty transition_data \<noteq> []"
    by (cases transition_data rule: truthy.cases) simp_all
  have e: "dict_update [] (or_empty transition_data) \<noteq> []"
    using n by (rule dict_update_nonempty)
  show ?thesis
  proof (cases sd rule: truthy.cases)
    case 1
    then show ?thesis by (simp add: or_new_def)
  next
    case 2
    then show ?thesis using e by (simp add: or_new_def)
  next
    case (3 x xs)
    then show ?thesis by (simp add: or_new_def)
  qed
qed

lemma find_id_map_update:
  fixes f :: "WorkflowInstance \<Rightarrow> WorkflowInstance"
  assumes "\<And>row. wi_id (f row) = wi_id row"
  shows "find (\<lambda>i. wi_id i = ident)
           (map (\<lambda>row. if wi_id row = ident then f row else row) rows) =
         map_option f (find (\<lambda>i. wi_id i = ident) rows)"
  by (induction rows) (simp_all add: assms)

lemma instance_get_id:
  "WorkflowInstanceRepository_get db ident = Some inst \<Longrightarrow> wi_id inst = ident"
  by (auto simp: WorkflowInstanceRepository_get_def find_Some_iff)

lemma flush_instance_frame:
  "workflows (flush_instance db inst h s c db_now) = workflows db"
  "business_rules (flush_instance db inst h s c db_now) = business_rules db"
  "projects (flush_instance db inst h s c db_now) = projects db"
  by (simp_all add: flush_instance_def)


lemma instance_get_flush:
  assumes g: "WorkflowInstanceRepository_get db ident = Some inst"
    and n: "\<not> (h = None \<and> s = None \<and> c = None)"
  shows "WorkflowInstanceRepository_get (flush_instance db inst h s c db_now) ident =
           Some (inst\<lparr> wi_history := (case h of None \<Rightarrow> wi_history inst | Some x \<Rightarrow> Some x),
                       wi_stage_data := (case s of None \<Rightarrow> wi_stage_data inst | Some d \<Rightarrow> Some d),
                       wi_current_stage := (case c of None \<Rightarrow> wi_current_stage inst | Some x \<Rightarrow> x),
                       wi_updated_at := db_now \<rparr>)"
proof -
  have i: "wi_id inst = ident" using g by (rule instance_get_id)
  define f :: "WorkflowInstance \<Rightarrow> WorkflowInstance" where "f = (\<lambda>row. row\<lparr> wi_history := (case h of None \<Rightarrow> wi_history row | Some x \<Rightarrow> Some x),
                            wi_stage_data := (case s of None \<Rightarrow> wi_stage_data row | Some d \<Rightarrow> Some d),
                            wi_current_stage := (case c of None \<Rightarrow> wi_current_stage row | Some x \<Rightarrow> x),
                            wi_updated_at := db_now \<rparr>)"
  have w: "wi_id (f row) = wi_id row" for row
    by (simp add: f_def)
  have fl: "flush_instance db inst h s c db_now =
          db\<lparr>workflow_instances :=
               map (\<lambda>row. if wi_id row = ident then f row else row) (workflow_instances db)\<rparr>"
    using n by (cases h; cases s; cases c) (simp_all add: flush_instance_def f_def i)
  have "find (\<lambda>i. wi_id i = ident)
           (map (\<lambda>row. if wi_id row = ident then f row else row) (workflow_instances db)) =
         map_option f (find (\<lambda>i. wi_id i = ident) (workflow_instances db))"
    using w by (rule find_id_map_update)
  then have "WorkflowInstanceRepository_get (flush_instance db inst h s c db_now) ident = Some (f inst)"
    using g by (simp add: WorkflowInstanceRepository_get_def fl)
  then show ?thesis by (simp add: f_def)
qed

lemma instance_get_flush_none:
  "flush_instance db inst None None None db_now = db"
  by (simp add: flush_instance_def)


lemma transition_stage_flush:
  assumes g: "WorkflowInstanceRepository_get db ident = Some inst"
  shows "transition_stage db ident new_stage transition_data triggered_by utcnow db_now =
           (flush_instance db inst
              (if truthy (wi_history inst) then None
               else Some [transition_record (wi_current_stage inst) new_stage utcnow
                            triggered_by transition_data])
              (if truthy transition_data \<and> \<not> truthy (wi_stage_data inst)
               then Some (dict_update [] (or_empty transition_data)) else None)
              (scalar_change (wi_current_stage inst) new_stage) db_now,
            Inr (WorkflowInstanceRepository_get
                   (flush_instance db inst
                      (if truthy (wi_history inst) then None
                       else Some [transition_record (wi_current_stage inst) new_stage utcnow
                                    triggered_by transition_data])
                      (if truthy transition_data \<and> \<not> truthy (wi_stage_data inst)
                       then Some (dict_update [] (or_empty transition_data)) else None)
                      (scalar_change (wi_current_stage inst) new_stage) db_now)
                   ident))"
proof -
  have i: "wi_id inst = ident" using g by (rule instance_get_id)
  show ?thesis
  proof (cases "truthy transition_data")
    case True
    then show ?thesis
      using g i
      by (simp add: transition_stage_def Let_def json_change_history json_change_stage_data)
  next
    case False
    then show ?thesis
      using g i
      by (simp add: transition_stage_def Let_def json_change_history)
  qed
qed

lemma instance_get_transition:
  assumes g: "WorkflowInstanceRepository_get db ident = Some inst"
  shows "WorkflowInstanceRepository_get
           (flush_instance db inst
              (if truthy (wi_history inst) then None
               else Some [transition_record (wi_current_stage inst) new_stage utcnow
                            triggered_by transition_data])
              (if truthy transition_data \<and> \<not> truthy (wi_stage_data inst)
               then Some (dict_update [] (or_empty transition_data)) else None)
              (scalar_change (wi_current_stage inst) new_stage) db_now) ident =
         Some (transitioned inst new_stage transition_data triggered_by utcnow db_now)"
proof (cases "truthy (wi_history inst) \<and> wi_current_stage inst = new_stage
                \<and> (if truthy transition_data then truthy (wi_stage_data inst) else True)")
  case True
  then have "flush_instance db inst
              (if truthy (wi_history inst) then None
               else Some [transition_record (wi_current_stage inst) new_stage utcnow
                            triggered_by transition_data])
              (if truthy transition_data \<and> \<not> truthy (wi_stage_data inst)
               then Some (dict_update [] (or_empty transition_data)) else None)
              (scalar_change (wi_current_stage inst) new_stage) db_now = db"
    by (simp add: scalar_change_def instance_get_flush_none split: if_splits)
  moreover from True
  have "transitioned inst new_stage transition_data triggered_by utcnow db_now = inst"
    by (simp add: transitioned_def split: if_splits)
  ultimately show ?thesis using g by simp
next
  case False
  then have n: "\<not> ((if truthy (wi_history inst) then None
               else Some [transition_record (wi_current_stage inst) new_stage utcnow
                            triggered_by transition_data]) = None
           \<and> (if truthy transition_data \<and> \<not> truthy (wi_stage_data inst)
               then Some (dict_update [] (or_empty transition_data)) else None) = None
           \<and> scalar_change (wi_current_stage inst) new_stage = None)"
    by (auto simp: scalar_change_def split: if_splits)
  from False show ?thesis
    unfolding instance_get_flush [OF g n]
    by (auto simp: transitioned_def scalar_change_def split: if_splits)
qed


lemma transition_stage_found:
  assumes g: "WorkflowInstanceRepository_get db ident = Some inst"
  shows "\<exists>db'. transition_stage db ident new_stage transition_data triggered_by utcnow db_now =
           (db', Inr (Some (transitioned inst new_stage transition_data triggered_by utcnow db_now)))
         \<and> WorkflowInstanceRepository_get db' ident =
             Some (transitioned inst new_stage transition_data triggered_by utcnow db_now)
         \<and> workflows db' = workflows db \<and> business_rules db' = business_rules db
         \<and> projects db' = projects db"
  by (simp add: transition_stage_flush [OF g] instance_get_transition [OF g] flush_instance_frame)

lemma transition_stage_failed:
  "WorkflowInstanceRepository_get db ident = None \<Longrightarrow>
   transition_stage db ident new_stage transition_data triggered_by utcnow db_now =
     (db, Inl (ValueError ''Workflow instance not found''))"
  by (simp add: transition_stage_def)

lemma transition_stage_success:
  assumes "transition_stage db ident new_stage transition_data triggered_by utcnow db_now = (db', Inr res)"
  shows "\<exists>inst. WorkflowInstanceRepository_get db ident = Some inst"
  using assms by (cases "WorkflowInstanceRepository_get db ident") (simp_all add: transition_stage_failed)

lemma example_instance_get:
  "WorkflowInstanceRepository_get example_db 1 = Some example_instance"
  by (simp add: WorkflowInstanceRepository_get_def example_db_def example_instance_def)

text \<open>
  Claim C2: every successful \<open>transition_stage\<close> call should leave a history that is the
  prior history with exactly one record appended, so that the history grows by \<open>N\<close> over
  \<open>N\<close> calls. The code does so only while the stored history is empty or absent. A
  non-empty history is the loaded list itself: the record is appended to it in place and
  the same list is assigned back, the flush sees no change, and the refresh brings back
  the stored list without the new record. Evaluated on the example instance, created
  without history: after the two calls of \<open>example_calls\<close> the history holds the record
  of the first call only, while \<open>current_stage\<close> is the stage of the second call, and the
  second call itself returns the instance with that one-entry history.
\<close>

theorem C2_second_record_lost:
  "WorkflowInstanceRepository_get (transition_sequence example_db 1 example_calls) 1 =
     Some \<lparr> wi_id = 1, wi_workflow_id = 1, wi_project_id = 1,
            wi_current_stage = ''closed_won'',
            wi_stage_data = Some [(''b'', JInt 2)],
            wi_history = Some [transition_record ''lead'' ''qualification''
                                 ''2024-01-01T10:00:00'' (Some 7) (Some [(''a'', JInt 1)])],
            wi_is_completed = False, wi_created_at = 12, wi_updated_at = 50 \<rparr>
   \<and> snd (transition_stage (transition_sequence example_db 1 (take 1 example_calls)) 1
            ''closed_won'' (Some [(''a'', JInt 3)]) None ''2024-01-02T10:00:00'' 50) =
     Inr (Some \<lparr> wi_id = 1, wi_workflow_id = 1, wi_project_id = 1,
            wi_current_stage = ''closed_won'',
            wi_stage_data = Some [(''b'', JInt 2)],
            wi_history = Some [transition_record ''lead'' ''qualification''
                                 ''2024-01-01T10:00:00'' (Some 7) (Some [(''a'', JInt 1)])],
            wi_is_completed = False, wi_created_at = 12, wi_updated_at = 50 \<rparr>)
   \<and> length example_calls = 2"
proof -
  define db1 where "db1 = transition_sequence example_db 1 (take 1 example_calls)"
  define inst1 where "inst1 = transitioned example_instance ''qualification''
                                (Some [(''a'', JInt 1)]) (Some 7) ''2024-01-01T10:00:00'' 40"
  define inst2 where "inst2 = transitioned inst1 ''closed_won''
                                (Some [(''a'', JInt 3)]) None ''2024-01-02T10:00:00'' 50"
  have d1: "db1 = fst (transition_stage example_db 1 ''qualification'' (Some [(''a'', JInt 1)])
                         (Some 7) ''2024-01-01T10:00:00'' 40)"
    by (simp add: db1_def transition_sequence_def transition_call_def example_calls_def)
  have g1: "WorkflowInstanceRepository_get db1 1 = Some inst1"
    using transition_stage_found [OF example_instance_get, of "''qualification''"
         "Some [(''a'', JInt 1)]" "Some 7" "''2024-01-01T10:00:00''" 40]
    by (auto simp: d1 inst1_def)
  have s2: "transition_sequence example_db 1 example_calls =
              fst (transition_stage db1 1 ''closed_won'' (Some [(''a'', JInt 3)]) None
                     ''2024-01-02T10:00:00'' 50)"
    by (simp add: d1 transition_sequence_def transition_call_def example_calls_def)
  from transition_stage_found [OF g1, of "''closed_won''" "Some [(''a'', JInt 3)]" None
         "''2024-01-02T10:00:00''" 50]
  have g2: "WorkflowInstanceRepository_get (transition_sequence example_db 1 example_calls) 1
              = Some inst2"
    and r2: "snd (transition_stage db1 1 ''closed_won'' (Some [(''a'', JInt 3)]) None
                    ''2024-01-02T10:00:00'' 50) = Inr (Some inst2)"
    by (auto simp: s2 inst2_def)
  have v: "inst2 = \<lparr> wi_id = 1, wi_workflow_id = 1, wi_project_id = 1,
            wi_current_stage = ''closed_won'',
            wi_stage_data = Some [(''b'', JInt 2)],
            wi_history = Some [transition_record ''lead'' ''qualification''
                                 ''2024-01-01T10:00:00'' (Some 7) (Some [(''a'', JInt 1)])],
            wi_is_completed = False, wi_created_at = 12, wi_updated_at = 50 \<rparr>"
    by (simp add: inst2_def inst1_def transitioned_def example_instance_def)
  have l: "length example_calls = 2"
    by (simp add: example_calls_def)
  from g2 r2 v l show ?thesis
    by (simp add: db1_def)
qed

section \<open>Stage data\<close>

text \<open>
  Claim C4: a successful \<open>transition_stage\<close> call with non-empty \<open>transition_data\<close> should
  leave a \<open>stage_data\<close> that maps every key of \<open>transition_data\<close> to its value there and
  keeps every other prior pair. The code does so only while the stored \<open>stage_data\<close> is
  empty or absent. A non-empty \<open>stage_data\<close> is the loaded dict itself: it is updated in
  place and assigned back, the flush sees no change, and the refresh brings back the
  stored dict. Evaluated on the example instance with \<open>stage_data = {b: 2}\<close> and
  \<open>transition_data = {a: 1}\<close>: the call returns \<open>stage_data = {b: 2}\<close>.
\<close>

theorem C4_stage_data_merge_lost:
  "snd (transition_stage example_db 1 ''qualification'' (Some [(''a'', JInt 1)]) (Some 7)
          ''2024-01-01T10:00:00'' 40) =
     Inr (Some \<lparr> wi_id = 1, wi_workflow_id = 1, wi_project_id = 1,
                  wi_current_stage = ''qualification'',
                  wi_stage_data = Some [(''b'', JInt 2)],
                  wi_history = Some [transition_record ''lead'' ''qualification''
                                       ''2024-01-01T10:00:00'' (Some 7) (Some [(''a'', JInt 1)])],
                  wi_is_completed = False, wi_created_at = 12, wi_updated_at = 40 \<rparr>)"
proof -
  have "transitioned example_instance ''qualification'' (Some [(''a'', JInt 1)]) (Some 7)
          ''2024-01-01T10:00:00'' 40 =
        \<lparr> wi_id = 1, wi_workflow_id = 1, wi_project_id = 1,
                  wi_current_stage = ''qualification'',
                  wi_stage_data = Some [(''b'', JInt 2)],
                  wi_history = Some [transition_record ''lead'' ''qualification''
                                       ''2024-01-01T10:00:00'' (Some 7) (Some [(''a'', JInt 1)])],
                  wi_is_completed = False, wi_created_at = 12, wi_updated_at = 40 \<rparr>"
    by (simp add: transitioned_def example_instance_def)
  with transition_stage_found [OF example_instance_get, of "''qualification''"
         "Some [(''a'', JInt 1)]" "Some 7" "''2024-01-01T10:00:00''" 40]
  show ?thesis by auto
qed

section \<open>The transition route\<close>

lemma instance_get_workflows_update:
  "WorkflowInstanceRepository_get (db\<lparr>workflows := ws\<rparr>) ident = WorkflowInstanceRepository_get db ident"
  by (simp add: WorkflowInstanceRepository_get_def)

lemma transition_workflow_stage_found:
  assumes g: "WorkflowInstanceRepository_get db ident = Some inst"
  shows "\<exists>db'. transition_workflow_stage db ident req uid utcnow db_now =
           (db', from_orm (Some (transitioned inst (st_to_stage req) (st_transition_data req)
                                   (Some uid) utcnow db_now)))
         \<and> WorkflowInstanceRepository_get db' ident =
             Some (transitioned inst (st_to_stage req) (st_transition_data req)
                     (Some uid) utcnow db_now)"
  using transition_stage_found [OF g, of "st_to_stage req" "st_transition_data req" "Some uid" utcnow db_now]
  by (auto simp: transition_workflow_stage_def g)

lemma transitioned_current_stage:
  "wi_current_stage (transitioned inst new_stage transition_data triggered_by utcnow db_now) = new_stage"
  by (simp add: transitioned_def)

text \<open>
  Claim C5, as stated: for every existing instance and every non-empty \<open>to_stage\<close> the
  transition succeeds. A \<open>to_stage\<close> of 101 characters is non-empty, and the route fails
  on it: the response schema bounds \<open>current_stage\<close> to 100 characters.
\<close>

theorem C5_long_stage_name_counterexample:
  "WorkflowInstanceRepository_get example_db 1 = Some example_instance
   \<and> replicate 101 (CHR ''a'') \<noteq> []
   \<and> snd (transition_workflow_stage example_db 1
            \<lparr> st_from_stage = ''lead'', st_to_stage = replicate 101 (CHR ''a''),
              st_transition_data = None, st_notes = None, st_triggered_by = None \<rparr>
            7 ''2024-01-01T10:00:00'' 40) = Inl ValidationError"
proof -
  from transition_workflow_stage_found [OF example_instance_get,
         of "\<lparr> st_from_stage = ''lead'', st_to_stage = replicate 101 (CHR ''a''),
              st_transition_data = None, st_notes = None, st_triggered_by = None \<rparr>"
            7 "''2024-01-01T10:00:00''" 40]
  have "snd (transition_workflow_stage example_db 1
            \<lparr> st_from_stage = ''lead'', st_to_stage = replicate 101 (CHR ''a''),
              st_transition_data = None, st_notes = None, st_triggered_by = None \<rparr>
            7 ''2024-01-01T10:00:00'' 40) = Inl ValidationError"
    by (auto simp: from_orm_def transitioned_current_stage)
  then show ?thesis
    using example_instance_get by simp
qed

text \<open>
  Claim C5, amended: for every existing instance and every \<open>to_stage\<close> of 1 to 100
  characters the transition route succeeds and leaves the instance at
  \<open>current_stage = to_stage\<close>, whatever the instance's stage was; for an existing instance
  and any other \<open>to_stage\<close> the route fails. In both cases the \<open>from_stage\<close> of the request
  has no influence on the outcome, and neither has the \<open>workflows\<close> table, so the stages
  the parent workflow declares are not consulted. (The store of the model sets no length
  limit on the column; an engine that enforces the declared length refuses a longer
  stage at the commit.)
\<close>

theorem C5_transition_unconditional:
  assumes g: "WorkflowInstanceRepository_get db ident = Some inst"
  shows "(1 \<le> length (st_to_stage req) \<and> length (st_to_stage req) \<le> 100 \<longrightarrow>
           (\<exists>inst'. snd (transition_workflow_stage db ident req uid utcnow db_now) = Inr inst'
              \<and> wi_current_stage inst' = st_to_stage req
              \<and> WorkflowInstanceRepository_get
                    (fst (transition_workflow_stage db ident req uid utcnow db_now)) ident
                  = Some inst'))
       \<and> (\<not> (1 \<le> length (st_to_stage req) \<and> length (st_to_stage req) \<le> 100) \<longrightarrow>
           (\<exists>e. snd (transition_workflow_stage db ident req uid utcnow db_now) = Inl e))
       \<and> transition_workflow_stage db ident (req\<lparr>st_from_stage := other_stage\<rparr>) uid utcnow db_now =
           transition_workflow_stage db ident req uid utcnow db_now
       \<and> snd (transition_workflow_stage (db\<lparr>workflows := ws\<rparr>) ident req uid utcnow db_now) =
           snd (transition_workflow_stage db ident req uid utcnow db_now)"
proof (intro conjI impI)
  assume "1 \<le> length (st_to_stage req) \<and> length (st_to_stage req) \<le> 100"
  with transition_workflow_stage_found [OF g, of req uid utcnow db_now]
  show "\<exists>inst'. snd (transition_workflow_stage db ident req uid utcnow db_now) = Inr inst'
           \<and> wi_current_stage inst' = st_to_stage req
           \<and> WorkflowInstanceRepository_get
                 (fst (transition_workflow_stage db ident req uid utcnow db_now)) ident = Some inst'"
    by (auto simp: from_orm_def transitioned_current_stage)
next
  assume "\<not> (1 \<le> length (st_to_stage req) \<and> length (st_to_stage req) \<le> 100)"
  with transition_workflow_stage_found [OF g, of req uid utcnow db_now]
  show "\<exists>e. snd (transition_workflow_stage db ident req uid utcnow db_now) = Inl e"
    by (auto simp: from_orm_def transitioned_current_stage)
next
  show "transition_workflow_stage db ident (req\<lparr>st_from_stage := other_stage\<rparr>) uid utcnow db_now =
           transition_workflow_stage db ident req uid utcnow db_now"
    by (simp add: transition_workflow_stage_def split: option.split)
next
  have g': "WorkflowInstanceRepository_get (db\<lparr>workflows := ws\<rparr>) ident = Some inst"
    using g by (simp add: instance_get_workflows_update)
  from transition_workflow_stage_found [OF g', of req uid utcnow db_now]
       transition_workflow_stage_found [OF g, of req uid utcnow db_now]
  show "snd (transition_workflow_stage (db\<lparr>workflows := ws\<rparr>) ident req uid utcnow db_now) =
           snd (transition_workflow_stage db ident req uid utcnow db_now)"
    by auto
qed

theorem C5_transition_unconditional_witness:
  "WorkflowInstanceRepository_get example_db 1 = Some example_instance
   \<and> 1 \<le> length ''archived'' \<and> length ''archived'' \<le> 100
   \<and> wi_current_stage example_instance = ''lead''
   \<and> map_of (wf_stages (example_workflows ! 0)) ''archived'' = None
   \<and> (\<exists>inst'. snd (transition_workflow_stage example_db 1
                      \<lparr> st_from_stage = ''negotiation'', st_to_stage = ''archived'',
                        st_transition_data = None, st_notes = None, st_triggered_by = None \<rparr>
                      7 ''2024-01-01T10:00:00'' 40) = Inr inst'
            \<and> wi_current_stage inst' = ''archived'')"
proof -
  note g = example_instance_get
  from C5_transition_unconditional [OF g, of "\<lparr> st_from_stage = ''negotiation'', st_to_stage = ''archived'',
                        st_transition_data = None, st_notes = None, st_triggered_by = None \<rparr>"
                 7 "''2024-01-01T10:00:00''" 40]
  have "\<exists>inst'. snd (transition_workflow_stage example_db 1
                      \<lparr> st_from_stage = ''negotiation'', st_to_stage = ''archived'',
                        st_transition_data = None, st_notes = None, st_triggered_by = None \<rparr>
                      7 ''2024-01-01T10:00:00'' 40) = Inr inst'
            \<and> wi_current_stage inst' = ''archived''"
    by auto
  with g show ?thesis
    by (simp add: example_instance_def example_workflows_def)
qed

section \<open>Frame of a transition\<close>

text \<open>
  Claim C10: a successful \<open>transition_stage\<close> call leaves \<open>id\<close>, \<open>workflow_id\<close>,
  \<open>project_id\<close>, \<open>is_completed\<close> and \<open>created_at\<close> of the instance as they were, for every
  target stage name.
\<close>

theorem C10_transition_frame:
  assumes "transition_stage db ident new_stage transition_data triggered_by utcnow db_now = (db', Inr res)"
  shows "\<exists>inst inst'.
           WorkflowInstanceRepository_get db ident = Some inst
         \<and> res = Some inst'
         \<and> WorkflowInstanceRepository_get db' ident = Some inst'
         \<and> wi_id inst' = wi_id inst
         \<and> wi_workflow_id inst' = wi_workflow_id inst
         \<and> wi_project_id inst' = wi_project_id inst
         \<and> wi_is_completed inst' = wi_is_completed inst
         \<and> wi_created_at inst' = wi_created_at inst"
proof -
  from assms obtain inst where g: "WorkflowInstanceRepository_get db ident = Some inst"
    using transition_stage_success by blast
  from transition_stage_found [OF g, of new_stage transition_data triggered_by utcnow db_now] assms
  show ?thesis
    using g by (auto simp: transitioned_def)
qed

theorem C10_transition_frame_witness:
  "\<exists>db' inst'.
         transition_stage example_db 1 ''completed'' None None ''2024-01-01T10:00:00'' 40
           = (db', Inr (Some inst'))
       \<and> wi_is_completed inst' = False
       \<and> wi_id inst' = 1 \<and> wi_workflow_id inst' = 1 \<and> wi_project_id inst' = 1
       \<and> wi_created_at inst' = 12"
proof -
  note g = example_instance_get
  obtain db' res where
    t: "transition_stage example_db 1 ''completed'' None None ''2024-01-01T10:00:00'' 40
          = (db', Inr res)"
    using transition_stage_found [OF g, of "''completed''" None None "''2024-01-01T10:00:00''" 40]
    by blast
  from C10_transition_frame [OF t] g t show ?thesis
    by (auto simp: example_instance_def)
qed

section \<open>Creating and fetching a workflow\<close>

lemma fold_max_ge:
  "(a::int) \<le> fold max ids a \<and> (\<forall>i \<in> set ids. i \<le> fold max ids a)"
proof (induction ids arbitrary: a)
  case Nil
  show ?case by simp
next
  case (Cons x xs)
  from Cons.IH [of "max x a"] show ?case by auto
qed

lemma next_id_fresh: "i \<in> set ids \<Longrightarrow> i < next_id ids"
  using fold_max_ge [of 0 ids] by (auto simp: next_id_def)

lemma find_append_fresh:
  "\<forall>x \<in> set xs. \<not> P x \<Longrightarrow> find P (xs @ ys) = find P ys"
  by (induction xs) auto

lemma workflow_get_None_iff:
  "WorkflowRepository_get db ident = None \<longleftrightarrow> ident \<notin> wf_id ` set (workflows db)"
  by (auto simp: WorkflowRepository_get_def find_None_iff)

lemma project_get_None_iff:
  "ProjectRepository_get db ident = None \<longleftrightarrow> ident \<notin> pr_id ` set (projects db)"
  by (auto simp: ProjectRepository_get_def find_None_iff)

lemma workflow_next_id_fresh:
  "next_id (map wf_id (workflows db)) \<notin> wf_id ` set (workflows db)"
  using next_id_fresh [of "next_id (map wf_id (workflows db))" "map wf_id (workflows db)"]
  by auto

lemma instance_next_id_fresh:
  "next_id (map wi_id (workflow_instances db)) \<notin> wi_id ` set (workflow_instances db)"
  using next_id_fresh [of "next_id (map wi_id (workflow_instances db))" "map wi_id (workflow_instances db)"]
  by auto

text \<open>
  Claim C9: after \<open>create_workflow\<close> has returned a workflow, \<open>get\<close> with its key on the
  database left behind returns that very record, whose key is new and whose other fields
  are the creation input and the two timestamps of the insertion; \<open>get\<close> with a key that no
  row carries returns \<open>None\<close>. \<open>get\<close> issues one query and writes nothing: in the embedding
  it is a function of the database that returns no database, so that fetching again on the
  same database gives the same result.
\<close>

theorem C9_get_after_create:
  "(create_workflow db workflow_data db_now = (db', w) \<longrightarrow>
      WorkflowRepository_get db' (wf_id w) = Some w
    \<and> wf_id w \<notin> wf_id ` set (workflows db)
    \<and> wf_name w = wc_name workflow_data
    \<and> wf_description w = wc_description workflow_data
    \<and> wf_type w = wc_type workflow_data
    \<and> wf_stages w = wc_stages workflow_data
    \<and> wf_rules w = wc_rules workflow_data
    \<and> wf_is_active w = wc_is_active workflow_data
    \<and> wf_created_at w = db_now
    \<and> wf_updated_at w = db_now)
   \<and> (ident \<notin> wf_id ` set (workflows db) \<longrightarrow> WorkflowRepository_get db ident = None)"
proof (intro conjI impI)
  assume c: "create_workflow db workflow_data db_now = (db', w)"
  then have w: "w = \<lparr> wf_id = next_id (map wf_id (workflows db)),
              wf_name = wc_name workflow_data,
              wf_description = wc_description workflow_data,
              wf_type = wc_type workflow_data,
              wf_stages = wc_stages workflow_data,
              wf_rules = wc_rules workflow_data,
              wf_is_active = wc_is_active workflow_data,
              wf_created_at = db_now,
              wf_updated_at = db_now \<rparr>"
    and d: "workflows db' = workflows db @ [w]"
    by (auto simp: create_workflow_def Let_def)
  from w show f: "wf_id w \<notin> wf_id ` set (workflows db)"
    using workflow_next_id_fresh [of db] by simp
  then have "\<forall>x \<in> set (workflows db). \<not> wf_id x = wf_id w" by (metis image_eqI)
  then show "WorkflowRepository_get db' (wf_id w) = Some w"
    by (simp add: WorkflowRepository_get_def d find_append_fresh)
  from w show "wf_name w = wc_name workflow_data" "wf_description w = wc_description workflow_data"
    "wf_type w = wc_type workflow_data" "wf_stages w = wc_stages workflow_data"
    "wf_rules w = wc_rules workflow_data" "wf_is_active w = wc_is_active workflow_data"
    "wf_created_at w = db_now" "wf_updated_at w = db_now"
    by simp_all
next
  assume "ident \<notin> wf_id ` set (workflows db)"
  then show "WorkflowRepository_get db ident = None"
    by (simp add: workflow_get_None_iff)
qed

theorem C9_get_after_create_witness:
  "(\<exists>db' w. create_workflow example_db example_workflow_data 70 = (db', w)
      \<and> wf_id w = 4
      \<and> WorkflowRepository_get db' 4 = Some w
      \<and> wf_name w = ''Onboarding'')
   \<and> 99 \<notin> wf_id ` set (workflows example_db)
   \<and> WorkflowRepository_get example_db 99 = None"
proof -
  obtain db' w where c: "create_workflow example_db example_workflow_data 70 = (db', w)"
    by (cases "create_workflow example_db example_workflow_data 70")
  then have i: "wf_id w = 4"
    by (auto simp: create_workflow_def Let_def next_id_def example_db_def example_workflows_def)
  have n: "99 \<notin> wf_id ` set (workflows example_db)"
    by (simp add: example_db_def example_workflows_def)
  from C9_get_after_create [of example_db example_workflow_data 70 db' w 99] c i n
  show ?thesis
    by (auto simp: example_workflow_data_def)
qed

section \<open>Creating an instance\<close>

lemma create_workflow_instance_found:
  "\<exists>inst. create_workflow_instance db instance_data db_now =
           (db\<lparr>workflow_instances := workflow_instances db @ [inst]\<rparr>, Some inst)
         \<and> wi_id inst \<notin> wi_id ` set (workflow_instances db)
         \<and> wi_workflow_id inst = ic_workflow_id instance_data
         \<and> wi_project_id inst = ic_project_id instance_data
         \<and> 1 \<le> length (wi_current_stage inst)
         \<and> length (wi_current_stage inst) \<le> 100"
proof -
  define inst where "inst =
            \<lparr> wi_id = next_id (map wi_id (workflow_instances db)),
              wi_workflow_id = ic_workflow_id instance_data,
              wi_project_id = ic_project_id instance_data,
              wi_current_stage = Rep_stage_name (ic_current_stage instance_data),
              wi_stage_data = ic_stage_data instance_data,
              wi_history = ic_history instance_data,
              wi_is_completed = ic_is_completed instance_data,
              wi_created_at = db_now,
              wi_updated_at = db_now \<rparr>"
  have f: "wi_id inst \<notin> wi_id ` set (workflow_instances db)"
    using instance_next_id_fresh [of db] by (simp add: inst_def)
  then have "\<forall>x \<in> set (workflow_instances db). \<not> wi_id x = wi_id inst" by (metis image_eqI)
  then have g: "WorkflowInstanceRepository_get
                  (db\<lparr>workflow_instances := workflow_instances db @ [inst]\<rparr>) (wi_id inst) = Some inst"
    by (simp add: WorkflowInstanceRepository_get_def find_append_fresh)
  have "create_workflow_instance db instance_data db_now =
           (db\<lparr>workflow_instances := workflow_instances db @ [inst]\<rparr>, Some inst)"
    using g by (simp add: create_workflow_instance_def Let_def inst_def)
  moreover have "1 \<le> length (wi_current_stage inst) \<and> length (wi_current_stage inst) \<le> 100"
    using Rep_stage_name [of "ic_current_stage instance_data"] by (simp add: inst_def)
  moreover have "wi_workflow_id inst = ic_workflow_id instance_data"
    "wi_project_id inst = ic_project_id instance_data"
    by (simp_all add: inst_def)
  ultimately show ?thesis using f by blast
qed

text \<open>
  Claim C6: the instance-creation route checks both references before it writes. With a
  \<open>workflow_id\<close> that no workflow carries it fails with 404 \<open>Workflow not found\<close>; with a
  \<open>project_id\<close> that no project carries it fails with 404, the detail being
  \<open>Project not found\<close> when the workflow reference resolves (the workflow is checked
  first). Every failure leaves the database as it was; when both references resolve,
  exactly one instance row is added and returned.
\<close>

theorem C6_instance_creation_validates_references:
  "(ic_workflow_id instance_data \<notin> wf_id ` set (workflows db) \<longrightarrow>
      create_workflow_instance_route db instance_data db_now =
        (db, Inl (HTTPException 404 ''Workflow not found'')))
   \<and> (ic_workflow_id instance_data \<in> wf_id ` set (workflows db) \<longrightarrow>
      ic_project_id instance_data \<notin> pr_id ` set (projects db) \<longrightarrow>
      create_workflow_instance_route db instance_data db_now =
        (db, Inl (HTTPException 404 ''Project not found'')))
   \<and> (ic_project_id instance_data \<notin> pr_id ` set (projects db) \<longrightarrow>
      (\<exists>detail. create_workflow_instance_route db instance_data db_now =
        (db, Inl (HTTPException 404 detail))))
   \<and> (\<forall>e. snd (create_workflow_instance_route db instance_data db_now) = Inl e \<longrightarrow>
           fst (create_workflow_instance_route db instance_data db_now) = db)
   \<and> (ic_workflow_id instance_data \<in> wf_id ` set (workflows db) \<longrightarrow>
      ic_project_id instance_data \<in> pr_id ` set (projects db) \<longrightarrow>
      (\<exists>inst. create_workflow_instance_route db instance_data db_now =
                 (db\<lparr>workflow_instances := workflow_instances db @ [inst]\<rparr>, Inr inst)
             \<and> wi_workflow_id inst = ic_workflow_id instance_data
             \<and> wi_project_id inst = ic_project_id instance_data))"
proof -
  let ?r = "create_workflow_instance_route db instance_data db_now"
  have a: "?r = (db, Inl (HTTPException 404 ''Workflow not found''))"
    if "ic_workflow_id instance_data \<notin> wf_id ` set (workflows db)"
    using that [folded workflow_get_None_iff]
    by (simp add: create_workflow_instance_route_def)
  have b: "?r = (db, Inl (HTTPException 404 ''Project not found''))"
    if "ic_workflow_id instance_data \<in> wf_id ` set (workflows db)"
      and "ic_project_id instance_data \<notin> pr_id ` set (projects db)"
  proof -
    from that(1) obtain wf where "WorkflowRepository_get db (ic_workflow_id instance_data) = Some wf"
      using workflow_get_None_iff [of db "ic_workflow_id instance_data"] by auto
    moreover from that(2) have "ProjectRepository_get db (ic_project_id instance_data) = None"
      by (simp add: project_get_None_iff)
    ultimately show ?thesis by (simp add: create_workflow_instance_route_def)
  qed
  have c: "\<exists>inst. ?r = (db\<lparr>workflow_instances := workflow_instances db @ [inst]\<rparr>, Inr inst)
             \<and> wi_workflow_id inst = ic_workflow_id instance_data
             \<and> wi_project_id inst = ic_project_id instance_data"
    if "ic_workflow_id instance_data \<in> wf_id ` set (workflows db)"
      and "ic_project_id instance_data \<in> pr_id ` set (projects db)"
  proof -
    from that(1) obtain wf where w: "WorkflowRepository_get db (ic_workflow_id instance_data) = Some wf"
      using workflow_get_None_iff [of db "ic_workflow_id instance_data"] by auto
    from that(2) obtain pr where p: "ProjectRepository_get db (ic_project_id instance_data) = Some pr"
      using project_get_None_iff [of db "ic_project_id instance_data"] by auto
    from create_workflow_instance_found [of db instance_data db_now] w p
    show ?thesis
      by (auto simp: create_workflow_instance_route_def from_orm_def)
  qed
  have d: "\<exists>detail. ?r = (db, Inl (HTTPException 404 detail))"
    if "ic_project_id instance_data \<notin> pr_id ` set (projects db)"
    using a b that by (cases "ic_workflow_id instance_data \<in> wf_id ` set (workflows db)") auto
  have e: "fst ?r = db" if "snd ?r = Inl e" for e
  proof (cases "ic_workflow_id instance_data \<in> wf_id ` set (workflows db)")
    case False
    then show ?thesis using a by simp
  next
    case True
    show ?thesis
    proof (cases "ic_project_id instance_data \<in> pr_id ` set (projects db)")
      case False
      with True show ?thesis using b by simp
    next
      case p: True
      from c [OF True p] that show ?thesis by auto
    qed
  qed
  from a b c d e show ?thesis by blast
qed

theorem C6_instance_creation_validates_references_witness:
  "99 \<notin> wf_id ` set (workflows example_db)
   \<and> create_workflow_instance_route example_db (example_instance_data 99 1) 60 =
        (example_db, Inl (HTTPException 404 ''Workflow not found''))
   \<and> 1 \<in> wf_id ` set (workflows example_db)
   \<and> 42 \<notin> pr_id ` set (projects example_db)
   \<and> create_workflow_instance_route example_db (example_instance_data 1 42) 60 =
        (example_db, Inl (HTTPException 404 ''Project not found''))
   \<and> 1 \<in> pr_id ` set (projects example_db)
   \<and> (\<exists>inst. snd (create_workflow_instance_route example_db (example_instance_data 1 1) 60) = Inr inst)"
proof -
  have a: "99 \<notin> wf_id ` set (workflows example_db)" "1 \<in> wf_id ` set (workflows example_db)"
    "42 \<notin> pr_id ` set (projects example_db)" "1 \<in> pr_id ` set (projects example_db)"
    by (simp_all add: example_db_def example_workflows_def)
  have i: "ic_workflow_id (example_instance_data x y) = x" "ic_project_id (example_instance_data x y) = y"
    for x y
    by (simp_all add: example_instance_data_def)
  from C6_instance_creation_validates_references [of "example_instance_data 99 1" example_db 60]
       C6_instance_creation_validates_references [of "example_instance_data 1 42" example_db 60]
       C6_instance_creation_validates_references [of "example_instance_data 1 1" example_db 60] a
  show ?thesis
    by (auto simp: i)
qed

section \<open>Listing workflows by type\<close>

lemma WorkflowType_of_string_value: "WorkflowType_of_string (WorkflowType_value t) = Some t"
  by (cases t) (simp_all add: WorkflowType_of_string_def WorkflowType_members_def)

lemma WorkflowType_of_string_None:
  "s \<notin> set (map WorkflowType_value WorkflowType_members) \<Longrightarrow> WorkflowType_of_string s = None"
  by (auto simp: WorkflowType_of_string_def find_None_iff)

lemma get_by_type_mset:
  "mset (get_by_type db t) =
     mset (filter (\<lambda>w. wf_type w = t \<and> wf_is_active w) (workflows db))"
  by (simp add: get_by_type_def mset_order_by_desc)

lemma get_by_type_sorted:
  "sorted_wrt (\<lambda>a b. wf_created_at b \<le> wf_created_at a) (get_by_type db t)"
  by (simp add: get_by_type_def sorted_order_by_desc)

text \<open>
  Claim C7, as stated: a request with a type value outside the enumeration fails with a
  validation error instead of returning a list. The empty string is outside the
  enumeration, and the route treats it as an absent type: it returns the list of all
  active workflows.
\<close>

theorem C7_empty_type_lists_counterexample:
  "[] \<notin> set (map WorkflowType_value WorkflowType_members)
   \<and> get_workflows example_db 0 100 (Some []) =
       Inr \<lparr> wl_items = [example_workflows ! 2, example_workflows ! 0],
             wl_total = 2, wl_page = 1, wl_size = 100, wl_pages = 1 \<rparr>"
  by (simp add: WorkflowType_members_def get_workflows_def get_active_workflows_def
        order_by_desc_def example_db_def example_workflows_def py_slice_def slice_bound_def
        Let_def)

text \<open>
  Claim C7, amended: the type-filtered listing \<open>get_by_type\<close> returns exactly the workflows
  whose type is the requested one and whose \<open>is_active\<close> is true, ordered by creation time
  descending, and never an inactive workflow, even if its type matches; a request with a
  non-empty type value outside the enumeration fails with 400 \<open>Invalid workflow type\<close>
  instead of returning a list; a request with a type value of the enumeration is answered
  with the page \<open>[skip : skip + limit]\<close> of the type-filtered listing and the length of
  that listing as total, or fails with a division by zero when \<open>limit\<close> is 0; a request
  with an empty type value is handled exactly as a request without a type value.
\<close>

theorem C7_type_filtered_listing:
  "mset (get_by_type db t) =
     mset (filter (\<lambda>w. wf_type w = t \<and> wf_is_active w) (workflows db))
   \<and> sorted_wrt (\<lambda>a b. wf_created_at b \<le> wf_created_at a) (get_by_type db t)
   \<and> (\<forall>w \<in> set (workflows db). \<not> wf_is_active w \<longrightarrow> w \<notin> set (get_by_type db t))
   \<and> (s \<noteq> [] \<longrightarrow> s \<notin> set (map WorkflowType_value WorkflowType_members) \<longrightarrow>
        get_workflows db skip limit (Some s) = Inl (HTTPException 400 ''Invalid workflow type''))
   \<and> get_workflows db skip limit (Some (WorkflowType_value t)) =
        (if limit = 0 then Inl ZeroDivisionError
         else Inr \<lparr> wl_items = py_slice (get_by_type db t) skip (skip + limit),
                    wl_total = int (length (get_by_type db t)),
                    wl_page = skip div limit + 1,
                    wl_size = limit,
                    wl_pages = (int (length (get_by_type db t)) + limit - 1) div limit \<rparr>)
   \<and> get_workflows db skip limit (Some []) = get_workflows db skip limit None"
proof (intro conjI impI ballI)
  show "mset (get_by_type db t) =
     mset (filter (\<lambda>w. wf_type w = t \<and> wf_is_active w) (workflows db))"
    by (rule get_by_type_mset)
  show "sorted_wrt (\<lambda>a b. wf_created_at b \<le> wf_created_at a) (get_by_type db t)"
    by (rule get_by_type_sorted)
next
  fix w assume "w \<in> set (workflows db)" "\<not> wf_is_active w"
  then show "w \<notin> set (get_by_type db t)"
    by (simp add: get_by_type_def set_order_by_desc)
next
  assume "s \<noteq> []" "s \<notin> set (map WorkflowType_value WorkflowType_members)"
  then show "get_workflows db skip limit (Some s) = Inl (HTTPException 400 ''Invalid workflow type'')"
    by (simp add: get_workflows_def truthy_nonempty WorkflowType_of_string_None)
next
  have "truthy (Some (WorkflowType_value t))"
    by (cases t) simp_all
  then show "get_workflows db skip limit (Some (WorkflowType_value t)) =
        (if limit = 0 then Inl ZeroDivisionError
         else Inr \<lparr> wl_items = py_slice (get_by_type db t) skip (skip + limit),
                    wl_total = int (length (get_by_type db t)),
                    wl_page = skip div limit + 1,
                    wl_size = limit,
                    wl_pages = (int (length (get_by_type db t)) + limit - 1) div limit \<rparr>)"
    by (simp add: get_workflows_def WorkflowType_of_string_value Let_def)
next
  show "get_workflows db skip limit (Some []) = get_workflows db skip limit None"
    by (simp add: get_workflows_def)
qed

theorem C7_type_filtered_listing_witness:
  "example_workflows ! 1 \<in> set (workflows example_db)
   \<and> \<not> wf_is_active (example_workflows ! 1)
   \<and> wf_type (example_workflows ! 1) = SALES
   \<and> example_workflows ! 1 \<notin> set (get_by_type example_db SALES)
   \<and> ''billing'' \<noteq> []
   \<and> ''billing'' \<notin> set (map WorkflowType_value WorkflowType_members)
   \<and> get_workflows example_db 0 100 (Some ''billing'')
       = Inl (HTTPException 400 ''Invalid workflow type'')
   \<and> (100::int) \<noteq> 0
   \<and> (\<exists>l. get_workflows example_db 0 100 (Some ''sales'') = Inr l \<and> wl_total l = 1)"
proof -
  have a: "example_workflows ! 1 \<in> set (workflows example_db)"
    "\<not> wf_is_active (example_workflows ! 1)" "wf_type (example_workflows ! 1) = SALES"
    by (simp_all add: example_db_def example_workflows_def)
  have b: "''billing'' \<notin> set (map WorkflowType_value WorkflowType_members)"
    by (simp add: WorkflowType_members_def)
  have c: "length (get_by_type example_db SALES) = 1"
    by (simp add: get_by_type_def length_order_by_desc example_db_def example_workflows_def)
  from C7_type_filtered_listing [of example_db SALES "''billing''" 0 100] a b c
  show ?thesis
    by auto
qed

section \<open>Workflow statistics\<close>

lemma workflows_by_type_fold:
  "fold (\<lambda>workflow_type acc.
            AList.update (WorkflowType_value workflow_type) (f workflow_type) acc)
        WorkflowType_members [] =
     map (\<lambda>t. (WorkflowType_value t, f t)) WorkflowType_members"
  by (simp add: WorkflowType_members_def)

text \<open>
  Claim C8: the statistics overview returns the number of workflows, the number of active
  workflows, a per-type count with one entry per member of the type enumeration (zero
  where no workflow has the type), the five most recently created active workflows (all
  of them when there are fewer), and always \<open>completed_workflows = 0\<close> and
  \<open>workflows_by_stage = {}\<close>.
\<close>

theorem C8_statistics_overview:
  "total_workflows (get_workflow_statistics_route db) = int (length (workflows db))
   \<and> active_workflows (get_workflow_statistics_route db)
       = int (length (filter wf_is_active (workflows db)))
   \<and> map fst (workflows_by_type (get_workflow_statistics_route db))
       = map WorkflowType_value WorkflowType_members
   \<and> (\<forall>t. map_of (workflows_by_type (get_workflow_statistics_route db)) (WorkflowType_value t)
            = Some (int (length (filter (\<lambda>w. wf_type w = t) (workflows db)))))
   \<and> recent_workflows (get_workflow_statistics_route db) = take 5 (get_active_workflows db)
   \<and> length (recent_workflows (get_workflow_statistics_route db))
       = min 5 (length (filter wf_is_active (workflows db)))
   \<and> (\<exists>older. mset (recent_workflows (get_workflow_statistics_route db) @ older)
                  = mset (filter wf_is_active (workflows db))
             \<and> sorted_wrt (\<lambda>a b. wf_created_at b \<le> wf_created_at a)
                  (recent_workflows (get_workflow_statistics_route db) @ older))
   \<and> completed_workflows (get_workflow_statistics_route db) = 0
   \<and> workflows_by_stage (get_workflow_statistics_route db) = []"
proof -
  let ?s = "get_workflow_statistics_route db"
  let ?cnt = "\<lambda>t. count_rows (\<lambda>w. wf_type w = t) (workflows db)"
  have bt: "workflows_by_type ?s = map (\<lambda>t. (WorkflowType_value t, ?cnt t)) WorkflowType_members"
    by (simp add: get_workflow_statistics_route_def get_workflow_statistics_def Let_def
          workflows_by_type_fold)
  have t1: "total_workflows ?s = int (length (workflows db))"
    by (simp add: get_workflow_statistics_route_def get_workflow_statistics_def Let_def)
  have t2: "active_workflows ?s = int (length (filter wf_is_active (workflows db)))"
    by (simp add: get_workflow_statistics_route_def get_workflow_statistics_def Let_def
          count_rows_def)
  have t3: "map fst (workflows_by_type ?s) = map WorkflowType_value WorkflowType_members"
    by (simp add: bt comp_def)
  have t4: "map_of (workflows_by_type ?s) (WorkflowType_value t)
            = Some (int (length (filter (\<lambda>w. wf_type w = t) (workflows db))))" for t
    by (cases t) (simp_all add: bt WorkflowType_members_def count_rows_def)
  have t5: "recent_workflows ?s = take 5 (get_active_workflows db)"
    by (simp add: get_workflow_statistics_route_def get_workflow_statistics_def Let_def
          get_active_workflows_def)
  have t6: "length (recent_workflows ?s) = min 5 (length (filter wf_is_active (workflows db)))"
    by (simp add: t5 get_active_workflows_def length_order_by_desc min.commute)
  have "mset (take 5 (get_active_workflows db) @ drop 5 (get_active_workflows db))
          = mset (filter wf_is_active (workflows db))"
    by (simp add: get_active_workflows_def mset_order_by_desc)
  moreover have "sorted_wrt (\<lambda>a b. wf_created_at b \<le> wf_created_at a)
                   (take 5 (get_active_workflows db) @ drop 5 (get_active_workflows db))"
    by (simp add: get_active_workflows_def sorted_order_by_desc)
  ultimately have t7: "\<exists>older. mset (recent_workflows ?s @ older)
                  = mset (filter wf_is_active (workflows db))
             \<and> sorted_wrt (\<lambda>a b. wf_created_at b \<le> wf_created_at a) (recent_workflows ?s @ older)"
    unfolding t5 by blast
  have t8: "completed_workflows ?s = 0" "workflows_by_stage ?s = []"
    by (simp_all add: get_workflow_statistics_route_def Let_def)
  from t1 t2 t3 t4 t5 t6 t7 t8 show ?thesis by blast
qed

theorem C8_statistics_overview_witness:
  "total_workflows (get_workflow_statistics_route example_db) = 3
   \<and> active_workflows (get_workflow_statistics_route example_db) = 2
   \<and> workflows_by_type (get_workflow_statistics_route example_db) =
       [(''sales'', 2), (''support'', 1), (''development'', 0), (''marketing'', 0),
        (''operations'', 0)]
   \<and> map wf_id (recent_workflows (get_workflow_statistics_route example_db)) = [3, 1]
   \<and> completed_workflows (get_workflow_statistics_route example_db) = 0
   \<and> workflows_by_stage (get_workflow_statistics_route example_db) = []"
proof -
  have a: "workflows_by_type (get_workflow_statistics_route example_db) =
       [(''sales'', 2), (''support'', 1), (''development'', 0), (''marketing'', 0),
        (''operations'', 0)]"
    by (simp add: get_workflow_statistics_route_def get_workflow_statistics_def Let_def
          workflows_by_type_fold WorkflowType_members_def count_rows_def
          example_db_def example_workflows_def)
  have b: "map wf_id (take 5 (get_active_workflows example_db)) = [3, 1]"
    by (simp add: get_active_workflows_def order_by_desc_def example_db_def example_workflows_def)
  from C8_statistics_overview [of example_db] a b show ?thesis
    by (simp add: example_db_def example_workflows_def)
qed

end
